theory Spec2Isabelle
  imports Main
begin

section \<open>Values and memory\<close>

text \<open>
  The Go program works on pointers: a \<^verbatim>\<open>*GormDBWrapper\<close> holds a \<^verbatim>\<open>*gorm.DB\<close> and
  an embedded \<^verbatim>\<open>*mock.Mock\<close>, and the repository passes \<^verbatim>\<open>&obj\<close> down to the
  backend.  Objects therefore live in explicit stores indexed by addresses; a
  pointer that may be \<^verbatim>\<open>nil\<close> is an \<open>addr option\<close>.
\<close>

type_synonym addr = nat

text \<open>Go's \<^verbatim>\<open>context.Context\<close>, opaque to this layer.\<close>

type_synonym Context = string

text \<open>Values of type \<^verbatim>\<open>interface{}\<close> as they are handed to the wrapper.\<close>

datatype val =
    VNil
  | VInt int
  | VStr string
  | VCtx Context
  | VPtr addr
  | VSlice "val list"
  | VStruct "val list"
  | VWrapper addr

text \<open>
  A panic of the Go runtime (or of a collaborator) aborts the call; it is the
  \<open>Inl\<close> branch of every result.  Go's \<^verbatim>\<open>error\<close> values are ordinary data:
  \<open>None\<close> is \<^verbatim>\<open>nil\<close>, \<open>Some msg\<close> a non-nil error.
\<close>

datatype panic = NilPointer | UnexpectedCall | BackendPanic

type_synonym error = "string option"

text \<open>
  \<^verbatim>\<open>gorm.DB\<close>: the only field this layer reads is \<^verbatim>\<open>Error\<close>; the rest of the
  session state is opaque.
\<close>

record gorm_DB =
  Error :: error
  Statement :: "val list"

text \<open>
  The memory the backend (and a recorder's \<^verbatim>\<open>Run\<close> hook) can reach: the
  \<^verbatim>\<open>gorm.DB\<close> handles, the cells that entity pointers point to, and the
  backing store itself, the rows of the entity's table in insertion order.
\<close>

record store =
  dbs :: "addr \<Rightarrow> gorm_DB"
  cells :: "addr \<Rightarrow> val"
  table :: "val list"

section \<open>The wrapper's operations\<close>

datatype methodName =
  MCreate | MFind | MDelete | MFirst | MSave | MWithContext | MBegin | MRollback | MCommit

text \<open>A call of one of the nine dispatching methods of \<^verbatim>\<open>GormDBWrapper\<close>, with
  its arguments as the caller wrote them (variadic arguments as a list).\<close>

datatype call =
    CreateC val
  | FindC val "val list"
  | DeleteC val "val list"
  | FirstC val "val list"
  | SaveC val
  | WithContextC Context
  | BeginC
  | RollbackC
  | CommitC

fun method_of :: "call \<Rightarrow> methodName" where
  "method_of (CreateC value) = MCreate"
| "method_of (FindC out wher) = MFind"
| "method_of (DeleteC value conds) = MDelete"
| "method_of (FirstC dest conds) = MFirst"
| "method_of (SaveC value) = MSave"
| "method_of (WithContextC ctx) = MWithContext"
| "method_of BeginC = MBegin"
| "method_of RollbackC = MRollback"
| "method_of CommitC = MCommit"

text \<open>
  What each method hands to \<^verbatim>\<open>w.Mock.Called(...)\<close>.  A variadic parameter is
  passed on without \<^verbatim>\<open>...\<close>, so the recorder sees it as one slice value.
\<close>

fun recorded_args :: "call \<Rightarrow> val list" where
  "recorded_args (CreateC value) = [value]"
| "recorded_args (FindC out wher) = [out, VSlice wher]"
| "recorded_args (DeleteC value conds) = [value, VSlice conds]"
| "recorded_args (FirstC dest conds) = [dest, VSlice conds]"
| "recorded_args (SaveC value) = [value]"
| "recorded_args (WithContextC ctx) = [VCtx ctx]"
| "recorded_args BeginC = []"
| "recorded_args RollbackC = []"
| "recorded_args CommitC = []"

text \<open>
  What each method hands to the backend: \<^verbatim>\<open>w.DB.Find(out, where...)\<close> spreads the
  variadic parameter, \<^verbatim>\<open>w.DB.First(dest, conds)\<close> and \<^verbatim>\<open>w.DB.Delete(value, conds)\<close>
  pass the slice as a single argument.
\<close>

fun forwarded_args :: "call \<Rightarrow> val list" where
  "forwarded_args (CreateC value) = [value]"
| "forwarded_args (FindC out wher) = out # wher"
| "forwarded_args (DeleteC value conds) = [value, VSlice conds]"
| "forwarded_args (FirstC dest conds) = [dest, VSlice conds]"
| "forwarded_args (SaveC value) = [value]"
| "forwarded_args (WithContextC ctx) = [VCtx ctx]"
| "forwarded_args BeginC = []"
| "forwarded_args RollbackC = []"
| "forwarded_args CommitC = []"

text \<open>
  The argument list of a call as the caller wrote it: the first argument followed
  by the conditions one by one.  This is the shape the specification means by
  forwarding "unchanged".
\<close>

fun caller_args :: "call \<Rightarrow> val list" where
  "caller_args (CreateC value) = [value]"
| "caller_args (FindC out wher) = out # wher"
| "caller_args (DeleteC value conds) = value # conds"
| "caller_args (FirstC dest conds) = dest # conds"
| "caller_args (SaveC value) = [value]"
| "caller_args (WithContextC ctx) = [VCtx ctx]"
| "caller_args BeginC = []"
| "caller_args RollbackC = []"
| "caller_args CommitC = []"

section \<open>The two collaborators\<close>

text \<open>
  The backend (GORM) is external.  It is a parameter of every operation: given
  the method, the receiving handle (possibly \<^verbatim>\<open>nil\<close>), the arguments and the
  memory it can reach, it either panics or returns a handle and the new memory.
\<close>

type_synonym backend =
  "methodName \<Rightarrow> addr option \<Rightarrow> val list \<Rightarrow> store \<Rightarrow> panic + (addr option \<times> store)"

text \<open>
  Modelled from the spec: the call recorder is testify's \<^verbatim>\<open>mock.Mock\<close>, a library
  whose code is not under src/.  The spec says a recorder "records the call's
  arguments" and "returns a pre-programmed result, performing no real I/O"; the
  tests program it with \<^verbatim>\<open>On(method, matchers...)\<close>, \<^verbatim>\<open>Run(hook)\<close> and
  \<^verbatim>\<open>Return(values...)\<close>.  The model keeps exactly that: the expectations, the
  recorded calls, a panic for a call no expectation matches, the hook (which may
  write to the memory a backend could reach, as the tests' hooks set
  \<^verbatim>\<open>DB.Error\<close>), and the programmed return values.  Call-count limits
  (\<^verbatim>\<open>Once\<close>, \<^verbatim>\<open>Maybe\<close>) are left out.
\<close>

datatype matcher = Anything | Exactly val

record Call =
  Method :: methodName
  Arguments :: "matcher list"
  ReturnArguments :: "val list"
  RunFn :: "(val list \<Rightarrow> store \<Rightarrow> store) option"

record Mock_t =
  ExpectedCalls :: "Call list"
  Calls :: "(methodName \<times> val list) list"

fun args_match :: "matcher list \<Rightarrow> val list \<Rightarrow> bool" where
  "args_match [] [] = True"
| "args_match (Anything # ms) (v # vs) = args_match ms vs"
| "args_match (Exactly x # ms) (v # vs) = (x = v \<and> args_match ms vs)"
| "args_match ms vs = False"

definition findExpectedCall :: "Mock_t \<Rightarrow> methodName \<Rightarrow> val list \<Rightarrow> Call option" where
  "findExpectedCall M meth args =
     find (\<lambda>c. Method c = meth \<and> args_match (Arguments c) args) (ExpectedCalls M)"

section \<open>The program state\<close>

text \<open>\<^verbatim>\<open>type GormDBWrapper struct { DB *gorm.DB; *mock.Mock }\<close>\<close>

record GormDBWrapper =
  DB :: "addr option"
  Mock :: "addr option"

text \<open>
  The state: the wrapper and recorder objects, the memory shared with the
  backend, the next free cell for a variable whose address is taken, and two
  ghost logs that only observe: \<open>invoked\<close> lists every entry into a dispatching
  wrapper method, \<open>forwarded\<close> every call that was passed to the backend.
\<close>

record world =
  wrappers :: "addr \<Rightarrow> GormDBWrapper"
  mocks :: "addr \<Rightarrow> Mock_t"
  mem :: store
  nxt :: addr
  invoked :: "(addr \<times> call) list"
  forwarded :: "(addr option \<times> methodName \<times> val list) list"

text \<open>\<^verbatim>\<open>m.Called(args...)\<close> of the recorder at address \<open>m\<close>.\<close>

definition Called :: "addr \<Rightarrow> methodName \<Rightarrow> val list \<Rightarrow> world \<Rightarrow> panic + (val list \<times> world)" where
  "Called m meth args s =
     (case findExpectedCall (mocks s m) meth args of
        None \<Rightarrow> Inl UnexpectedCall
      | Some c \<Rightarrow>
          (let M = mocks s m;
               s1 = s\<lparr>mocks := (mocks s)(m := M\<lparr>Calls := Calls M @ [(meth, args)]\<rparr>)\<rparr>;
               s2 = (case RunFn c of
                       None \<Rightarrow> s1
                     | Some hook \<Rightarrow> s1\<lparr>mem := hook args (mem s1)\<rparr>)
           in Inr (ReturnArguments c, s2)))"

section \<open>GormDBWrapper\<close>

text \<open>
  All nine dispatching methods have the same body, for instance
  \<^verbatim>\<open>
  func (w *GormDBWrapper) Find(out interface{}, where ...interface{}) GormDBInterface {
      if w.Mock != nil {
          w.Mock.Called(out, where)
          return w
      }
      w.DB = w.DB.Find(out, where...)
      return w
  }
  \<close>
  and differ only in the method and in the two argument lists, which
  \<open>recorded_args\<close> and \<open>forwarded_args\<close> tabulate.  The receiver \<open>w\<close> is a
  non-nil pointer.  The value \<^verbatim>\<open>Called\<close> returns is dropped.
\<close>

definition invoke :: "backend \<Rightarrow> addr \<Rightarrow> call \<Rightarrow> world \<Rightarrow> panic + (addr \<times> world)" where
  "invoke bk w c s0 =
     (let s = s0\<lparr>invoked := invoked s0 @ [(w, c)]\<rparr> in
      case Mock (wrappers s w) of
        Some m \<Rightarrow>
          (case Called m (method_of c) (recorded_args c) s of
             Inl p \<Rightarrow> Inl p
           | Inr (ret, s') \<Rightarrow> Inr (w, s'))
      | None \<Rightarrow>
          (case bk (method_of c) (DB (wrappers s w)) (forwarded_args c) (mem s) of
             Inl p \<Rightarrow> Inl p
           | Inr (d, st) \<Rightarrow>
               Inr (w, s\<lparr>wrappers := (wrappers s)(w := (wrappers s w)\<lparr>DB := d\<rparr>),
                         mem := st,
                         forwarded := forwarded s @
                           [(DB (wrappers s w), method_of c, forwarded_args c)]\<rparr>)))"

definition Create :: "backend \<Rightarrow> addr \<Rightarrow> val \<Rightarrow> world \<Rightarrow> panic + (addr \<times> world)" where
  "Create bk w value = invoke bk w (CreateC value)"

definition Find :: "backend \<Rightarrow> addr \<Rightarrow> val \<Rightarrow> val list \<Rightarrow> world \<Rightarrow> panic + (addr \<times> world)" where
  "Find bk w out wher = invoke bk w (FindC out wher)"

definition Delete :: "backend \<Rightarrow> addr \<Rightarrow> val \<Rightarrow> val list \<Rightarrow> world \<Rightarrow> panic + (addr \<times> world)" where
  "Delete bk w value conds = invoke bk w (DeleteC value conds)"

definition First :: "backend \<Rightarrow> addr \<Rightarrow> val \<Rightarrow> val list \<Rightarrow> world \<Rightarrow> panic + (addr \<times> world)" where
  "First bk w dest conds = invoke bk w (FirstC dest conds)"

definition Save :: "backend \<Rightarrow> addr \<Rightarrow> val \<Rightarrow> world \<Rightarrow> panic + (addr \<times> world)" where
  "Save bk w value = invoke bk w (SaveC value)"

definition WithContext :: "backend \<Rightarrow> addr \<Rightarrow> Context \<Rightarrow> world \<Rightarrow> panic + (addr \<times> world)" where
  "WithContext bk w ctx = invoke bk w (WithContextC ctx)"

definition Begin :: "backend \<Rightarrow> addr \<Rightarrow> world \<Rightarrow> panic + (addr \<times> world)" where
  "Begin bk w = invoke bk w BeginC"

definition Rollback :: "backend \<Rightarrow> addr \<Rightarrow> world \<Rightarrow> panic + (addr \<times> world)" where
  "Rollback bk w = invoke bk w RollbackC"

definition Commit :: "backend \<Rightarrow> addr \<Rightarrow> world \<Rightarrow> panic + (addr \<times> world)" where
  "Commit bk w = invoke bk w CommitC"

text \<open>\<^verbatim>\<open>func (w *GormDBWrapper) GetDB() *gorm.DB { return w.DB }\<close>\<close>

definition GetDB :: "addr \<Rightarrow> world \<Rightarrow> addr option" where
  "GetDB w s = DB (wrappers s w)"

text \<open>Reading \<^verbatim>\<open>.Error\<close> through a \<^verbatim>\<open>*gorm.DB\<close>; a nil pointer panics.\<close>

definition Error_of :: "addr option \<Rightarrow> world \<Rightarrow> panic + error" where
  "Error_of d s = (case d of None \<Rightarrow> Inl NilPointer | Some a \<Rightarrow> Inr (Error (dbs (mem s) a)))"

text \<open>
  A transactional function \<^verbatim>\<open>func(tx GormDBInterface) error\<close> is arbitrary Go
  code: it gets the handle and the state, and panics or returns an error value
  and the state it leaves.
\<close>

type_synonym txfun = "addr \<Rightarrow> world \<Rightarrow> panic + (error \<times> world)"

text \<open>
  \<^verbatim>\<open>
  func (w *GormDBWrapper) Transaction(fc func(tx GormDBInterface) error) error {
      var txWrapper GormDBInterface
      txWrapper = w.Begin()
      if txWrapper.GetDB().Error != nil {
          return txWrapper.GetDB().Error
      }
      err := fc(txWrapper)
      if err != nil {
          txWrapper.Rollback()
          return err
      }
      txWrapper.Commit()
      return nil
  }
  \<close>
\<close>

definition Transaction :: "backend \<Rightarrow> addr \<Rightarrow> txfun \<Rightarrow> world \<Rightarrow> panic + (error \<times> world)" where
  "Transaction bk w fc s =
     (case Begin bk w s of
        Inl p \<Rightarrow> Inl p
      | Inr (txWrapper, s1) \<Rightarrow>
          (case Error_of (GetDB txWrapper s1) s1 of
             Inl p \<Rightarrow> Inl p
           | Inr e \<Rightarrow>
               if e \<noteq> None then
                 (case Error_of (GetDB txWrapper s1) s1 of
                    Inl p \<Rightarrow> Inl p
                  | Inr e' \<Rightarrow> Inr (e', s1))
               else
                 (case fc txWrapper s1 of
                    Inl p \<Rightarrow> Inl p
                  | Inr (err, s2) \<Rightarrow>
                      if err \<noteq> None then
                        (case Rollback bk txWrapper s2 of
                           Inl p \<Rightarrow> Inl p
                         | Inr (r, s3) \<Rightarrow> Inr (err, s3))
                      else
                        (case Commit bk txWrapper s2 of
                           Inl p \<Rightarrow> Inl p
                         | Inr (r, s3) \<Rightarrow> Inr (None, s3)))))"

section \<open>GormRepository\<close>

text \<open>\<^verbatim>\<open>type GormRepository[T any] struct { DB *GormDBWrapper }\<close>; the field is
  renamed because the wrapper's own field is called \<open>DB\<close> too.\<close>

record GormRepository =
  RepoDB :: addr

definition NewGormDatabase :: "addr \<Rightarrow> GormRepository" where
  "NewGormDatabase db = \<lparr>RepoDB = db\<rparr>"

text \<open>
  A parameter or local variable whose address is taken (\<^verbatim>\<open>&obj\<close>,
  \<^verbatim>\<open>&results\<close>, \<^verbatim>\<open>&result\<close>) is a fresh cell holding its initial value.
\<close>

definition new_var :: "val \<Rightarrow> world \<Rightarrow> addr \<times> world" where
  "new_var v s =
     (nxt s, s\<lparr>mem := (mem s)\<lparr>cells := (cells (mem s))(nxt s := v)\<rparr>, nxt := Suc (nxt s)\<rparr>)"

text \<open>
  \<^verbatim>\<open>
  func (gdb *GormRepository[T]) Create(ctx context.Context, obj T) error {
      var with_context = gdb.DB.WithContext(ctx)
      var create = with_context.Create(&obj)
      var db = create.GetDB()
      return db.Error
  }
  \<close>
\<close>

definition Repository_Create ::
  "backend \<Rightarrow> GormRepository \<Rightarrow> Context \<Rightarrow> val \<Rightarrow> world \<Rightarrow> panic + (error \<times> world)" where
  "Repository_Create bk gdb ctx obj s0 =
     (case new_var obj s0 of (p, s) \<Rightarrow>
      (case WithContext bk (RepoDB gdb) ctx s of
        Inl e \<Rightarrow> Inl e
      | Inr (with_context, s1) \<Rightarrow>
          (case Create bk with_context (VPtr p) s1 of
             Inl e \<Rightarrow> Inl e
           | Inr (create, s2) \<Rightarrow>
               (case Error_of (GetDB create s2) s2 of
                  Inl e \<Rightarrow> Inl e
                | Inr err \<Rightarrow> Inr (err, s2)))))"

text \<open>
  \<^verbatim>\<open>
  func (gdb *GormRepository[T]) Find(ctx context.Context, conds ...interface{}) ([]T, error) {
      var results []T
      err := gdb.DB.WithContext(ctx).Find(&results, conds...).GetDB().Error
      return results, err
  }
  \<close>
\<close>

definition Repository_Find ::
  "backend \<Rightarrow> GormRepository \<Rightarrow> Context \<Rightarrow> val list \<Rightarrow> world \<Rightarrow> panic + ((val \<times> error) \<times> world)" where
  "Repository_Find bk gdb ctx conds s0 =
     (case new_var (VSlice []) s0 of (results, s) \<Rightarrow>
      (case WithContext bk (RepoDB gdb) ctx s of
        Inl e \<Rightarrow> Inl e
      | Inr (wc, s1) \<Rightarrow>
          (case Find bk wc (VPtr results) conds s1 of
             Inl e \<Rightarrow> Inl e
           | Inr (f, s2) \<Rightarrow>
               (case Error_of (GetDB f s2) s2 of
                  Inl e \<Rightarrow> Inl e
                | Inr err \<Rightarrow> Inr ((cells (mem s2) results, err), s2)))))"

text \<open>
  \<^verbatim>\<open>
  func (gdb *GormRepository[T]) First(ctx context.Context, conds ...interface{}) (T, error) {
      var result T
      err := gdb.DB.WithContext(ctx).First(&result, conds...).GetDB().Error
      return result, err
  }
  \<close>
  The zero value of the type parameter \<^verbatim>\<open>T\<close> is the parameter \<open>zero\<close>.
\<close>

definition Repository_First ::
  "backend \<Rightarrow> val \<Rightarrow> GormRepository \<Rightarrow> Context \<Rightarrow> val list \<Rightarrow> world \<Rightarrow> panic + ((val \<times> error) \<times> world)" where
  "Repository_First bk zero gdb ctx conds s0 =
     (case new_var zero s0 of (result, s) \<Rightarrow>
      (case WithContext bk (RepoDB gdb) ctx s of
        Inl e \<Rightarrow> Inl e
      | Inr (wc, s1) \<Rightarrow>
          (case First bk wc (VPtr result) conds s1 of
             Inl e \<Rightarrow> Inl e
           | Inr (f, s2) \<Rightarrow>
               (case Error_of (GetDB f s2) s2 of
                  Inl e \<Rightarrow> Inl e
                | Inr err \<Rightarrow> Inr ((cells (mem s2) result, err), s2)))))"



section \<open>Scenarios\<close>

text \<open>
  Concrete collaborators and states on which the theorems below are exercised.
  They follow the repository's tests: one wrapper at address 0 over the handle at
  address 0, an entity \<^verbatim>\<open>TestModel{ID, Name}\<close> as a two-field struct.
\<close>

definition set_ID :: "val \<Rightarrow> val" where
  "set_ID v = (case v of VStruct (i # fs) \<Rightarrow> VStruct (VInt 1 # fs) | _ \<Rightarrow> v)"

text \<open>
  A backend that follows a script: it keeps the handle it is called on, leaves
  there the error the script names for the method, and on \<open>MCreate\<close> writes a
  generated primary key through the pointer it was given.
\<close>

definition scripted_backend :: "(methodName \<Rightarrow> error) \<Rightarrow> backend" where
  "scripted_backend outcome meth d args st =
     (case d of
        None \<Rightarrow> Inl NilPointer
      | Some a \<Rightarrow>
          (let st1 = st\<lparr>dbs := (dbs st)(a := (dbs st a)\<lparr>Error := outcome meth\<rparr>)\<rparr>;
               st2 = (case args of
                        VPtr p # rest \<Rightarrow>
                          if meth = MCreate
                          then st1\<lparr>cells := (cells st1)(p := set_ID (cells st1 p))\<rparr>
                          else st1
                      | _ \<Rightarrow> st1)
           in Inr (Some a, st2)))"

definition no_error :: "methodName \<Rightarrow> error" where
  "no_error meth = None"

definition rollback_fails :: "methodName \<Rightarrow> error" where
  "rollback_fails meth = (if meth = MRollback then Some ''rollback failed'' else None)"

definition begin_fails :: "methodName \<Rightarrow> error" where
  "begin_fails meth = (if meth = MBegin then Some ''cannot open transaction'' else None)"

definition create_fails :: "methodName \<Rightarrow> error" where
  "create_fails meth = (if meth = MCreate then Some ''create error'' else None)"

definition TestModel :: "int \<Rightarrow> string \<Rightarrow> val" where
  "TestModel i name = VStruct [VInt i, VStr name]"

definition empty_store :: store where
  "empty_store =
     \<lparr>dbs = (\<lambda>a. \<lparr>Error = None, Statement = []\<rparr>), cells = (\<lambda>a. VNil), table = []\<rparr>"

text \<open>Live mode: no recorder; the caller holds one entity in cell 0.\<close>

definition live_world :: world where
  "live_world =
     \<lparr>wrappers = (\<lambda>a. \<lparr>DB = Some 0, Mock = None\<rparr>),
      mocks = (\<lambda>a. \<lparr>ExpectedCalls = [], Calls = []\<rparr>),
      mem = empty_store\<lparr>cells := (cells empty_store)(0 := TestModel 0 ''Test Name'')\<rparr>,
      nxt = 1,
      invoked = [],
      forwarded = []\<rparr>"

text \<open>
  Recorder mode, programmed as \<^verbatim>\<open>TestGormDBWrapper_Transaction_Negative\<close> and the
  repository tests do: every method is expected with \<^verbatim>\<open>mock.Anything\<close> arguments
  and returns another wrapper (address 1); the hook of \<^verbatim>\<open>Create\<close> sets the
  error slot of the handle.
\<close>

definition set_Error :: "addr \<Rightarrow> error \<Rightarrow> val list \<Rightarrow> store \<Rightarrow> store" where
  "set_Error a e args st = st\<lparr>dbs := (dbs st)(a := (dbs st a)\<lparr>Error := e\<rparr>)\<rparr>"

definition on :: "methodName \<Rightarrow> matcher list \<Rightarrow> Call" where
  "on meth ms = \<lparr>Method = meth, Arguments = ms, ReturnArguments = [VWrapper 1], RunFn = None\<rparr>"

definition recorder_world :: world where
  "recorder_world =
     \<lparr>wrappers = (\<lambda>a. \<lparr>DB = Some 0, Mock = Some 0\<rparr>),
      mocks = (\<lambda>a. \<lparr>ExpectedCalls =
                 [on MBegin [], on MCommit [], on MRollback [],
                  on MWithContext [Anything],
                  (on MCreate [Anything])\<lparr>RunFn := Some (set_Error 0 (Some ''transaction error''))\<rparr>,
                  on MSave [Anything],
                  on MFind [Anything, Anything], on MFirst [Anything, Anything],
                  on MDelete [Anything, Anything]],
               Calls = []\<rparr>),
      mem = empty_store\<lparr>cells := (cells empty_store)(0 := TestModel 0 ''Test Name'')\<rparr>,
      nxt = 1,
      invoked = [],
      forwarded = []\<rparr>"

text \<open>
  The transactional functions of the two transaction tests: create an entity
  through the handle and return what the error slot holds, or create it and
  return nil whatever the slot holds; and one that returns a fixed outcome
  without touching the handle.
\<close>

definition create_and_report :: "backend \<Rightarrow> txfun" where
  "create_and_report bk tx s =
     (case Create bk tx (VPtr 0) s of
        Inl p \<Rightarrow> Inl p
      | Inr (r, s') \<Rightarrow>
          (case Error_of (GetDB r s') s' of
             Inl p \<Rightarrow> Inl p
           | Inr e \<Rightarrow> Inr (e, s')))"

definition create_and_ignore :: "backend \<Rightarrow> txfun" where
  "create_and_ignore bk tx s =
     (case Create bk tx (VPtr 0) s of
        Inl p \<Rightarrow> Inl p
      | Inr (r, s') \<Rightarrow> Inr (None, s'))"

definition just_return :: "error \<Rightarrow> txfun" where
  "just_return e tx s = Inr (e, s)"

text \<open>Observing a result: the returned value, and the calls the final state logged.\<close>

definition returned :: "panic + ('a \<times> world) \<Rightarrow> panic + 'a" where
  "returned r = (case r of Inl p \<Rightarrow> Inl p | Inr (x, s) \<Rightarrow> Inr x)"

definition final :: "panic + ('a \<times> world) \<Rightarrow> world \<Rightarrow> world" where
  "final r s0 = (case r of Inl p \<Rightarrow> s0 | Inr (x, s) \<Rightarrow> s)"

definition times_invoked :: "call \<Rightarrow> (addr \<times> call) list \<Rightarrow> nat" where
  "times_invoked c tr = length (filter (\<lambda>e. snd e = c) tr)"

section \<open>A backend with a backing store\<close>

text \<open>
  Modelled from the spec: the backend is GORM, a library whose code is not
  under src/; the operations take it as a parameter, and this definition is one
  backend, written from the spec's contract of it (4.1, 4.4 and 8).  Every
  operation "leaves its outcome in a single mutable error slot" of the handle,
  which "reflects exactly the most recent operation".  \<open>create\<close> stores the
  entity its pointer points to; \<open>find\<close> writes the rows the conditions select
  into the sequence its pointer points to, and finding none "returns an empty
  sequence and nil error"; \<open>first\<close> writes the first such row, and "not found is
  reported as an error"; \<open>save\<close> is "upsert-by-primary-key"; \<open>delete\<close> removes
  the entity's row; \<open>withContext\<close>, \<open>begin\<close>, \<open>commit\<close> and \<open>rollback\<close> return
  "a handle of the same shape".  How a condition list selects a row
  (\<open>matches\<close>) and what the primary key of an entity is (\<open>key\<close>) are
  parameters.  The spec says nothing of isolation or of undoing on rollback,
  and nothing is modelled; an operation whose first argument is not a pointer
  leaves an error.
\<close>

definition outcome_in_slot :: "addr \<Rightarrow> error \<Rightarrow> store \<Rightarrow> panic + (addr option \<times> store)" where
  "outcome_in_slot a e st = Inr (Some a, st\<lparr>dbs := (dbs st)(a := (dbs st a)\<lparr>Error := e\<rparr>)\<rparr>)"

definition upsert :: "(val \<Rightarrow> val) \<Rightarrow> val \<Rightarrow> val list \<Rightarrow> val list" where
  "upsert key row rows =
     (if \<exists>r \<in> set rows. key r = key row
      then map (\<lambda>r. if key r = key row then row else r) rows
      else rows @ [row])"

definition spec_backend :: "(val list \<Rightarrow> val \<Rightarrow> bool) \<Rightarrow> (val \<Rightarrow> val) \<Rightarrow> backend" where
  "spec_backend matches key meth d args st =
     (case d of
        None \<Rightarrow> Inl NilPointer
      | Some a \<Rightarrow>
          if meth \<in> {MWithContext, MBegin, MCommit, MRollback} then outcome_in_slot a None st
          else
            (case args of
               VPtr p # conds \<Rightarrow>
                 if meth = MCreate then
                   outcome_in_slot a None (st\<lparr>table := table st @ [cells st p]\<rparr>)
                 else if meth = MSave then
                   outcome_in_slot a None (st\<lparr>table := upsert key (cells st p) (table st)\<rparr>)
                 else if meth = MDelete then
                   outcome_in_slot a None
                     (st\<lparr>table := filter (\<lambda>r. key r \<noteq> key (cells st p)) (table st)\<rparr>)
                 else if meth = MFind then
                   outcome_in_slot a None
                     (st\<lparr>cells := (cells st)(p := VSlice (filter (matches conds) (table st)))\<rparr>)
                 else
                   (case filter (matches conds) (table st) of
                      [] \<Rightarrow> outcome_in_slot a (Some ''record not found'') st
                    | row # rows \<Rightarrow> outcome_in_slot a None (st\<lparr>cells := (cells st)(p := row)\<rparr>))
             | _ \<Rightarrow> outcome_in_slot a (Some ''invalid value'') st))"

text \<open>Conditions that name the value of the entity's second field, and the first
  field as primary key, for the scenarios.\<close>

definition by_name :: "val list \<Rightarrow> val \<Rightarrow> bool" where
  "by_name conds row =
     (case conds of
        [] \<Rightarrow> True
      | c # cs \<Rightarrow> (case row of VStruct (i # n # fs) \<Rightarrow> n = c | _ \<Rightarrow> False))"

definition first_field :: "val \<Rightarrow> val" where
  "first_field v = (case v of VStruct (i # fs) \<Rightarrow> i | _ \<Rightarrow> VNil)"

section \<open>What the collaborators may write\<close>

text \<open>The cell addresses a value holds, at any depth of slices and structs.\<close>

fun ptrs :: "val \<Rightarrow> addr set" where
  "ptrs (VPtr a) = {a}"
| "ptrs (VSlice vs) = (\<Union>v \<in> set vs. ptrs v)"
| "ptrs (VStruct vs) = (\<Union>v \<in> set vs. ptrs v)"
| "ptrs v = {}"


text \<open>
  The cells a callee can reach from its arguments: those an argument points
  to, and those a reached cell points to in turn.
\<close>

inductive_set reach :: "(addr \<Rightarrow> val) \<Rightarrow> val list \<Rightarrow> addr set"
  for cs :: "addr \<Rightarrow> val" and args :: "val list" where
  arg: "v \<in> set args \<Longrightarrow> a \<in> ptrs v \<Longrightarrow> a \<in> reach cs args"
| step: "a \<in> reach cs args \<Longrightarrow> b \<in> ptrs (cs a) \<Longrightarrow> b \<in> reach cs args"






section \<open>How one wrapper call changes the state\<close>

lemma Called_effect:
  assumes "Called m meth args s = Inr (ret, s')"
  shows "wrappers s' = wrappers s \<and> invoked s' = invoked s \<and> forwarded s' = forwarded s \<and>
    nxt s' = nxt s \<and>
    mocks s' = (mocks s)(m := (mocks s m)\<lparr>Calls := Calls (mocks s m) @ [(meth, args)]\<rparr>)"
  using assms by (auto simp: Called_def Let_def split: option.splits)

lemma invoke_recorder:
  assumes "Mock (wrappers s w) = Some m" "invoke bk w c s = Inr (r, s')"
  shows "r = w \<and> wrappers s' = wrappers s \<and> invoked s' = invoked s @ [(w, c)] \<and>
    forwarded s' = forwarded s \<and> nxt s' = nxt s \<and>
    mocks s' = (mocks s)(m := (mocks s m)
                  \<lparr>Calls := Calls (mocks s m) @ [(method_of c, recorded_args c)]\<rparr>)"
  using assms
  by (auto simp: invoke_def Let_def split: sum.splits dest!: Called_effect)

lemma invoke_live:
  assumes "Mock (wrappers s w) = None" "invoke bk w c s = Inr (r, s')"
  shows "\<exists>d st. bk (method_of c) (DB (wrappers s w)) (forwarded_args c) (mem s) = Inr (d, st) \<and>
           r = w \<and>
           s' = s\<lparr>wrappers := (wrappers s)(w := (wrappers s w)\<lparr>DB := d\<rparr>), mem := st,
                   invoked := invoked s @ [(w, c)],
                   forwarded := forwarded s @
                     [(DB (wrappers s w), method_of c, forwarded_args c)]\<rparr>"
  using assms
  by (auto simp: invoke_def Let_def split: sum.splits)

lemma invoke_result:
  assumes "invoke bk w c s = Inr (r, s')"
  shows "r = w \<and> invoked s' = invoked s @ [(w, c)] \<and> nxt s' = nxt s"
proof (cases "Mock (wrappers s w)")
  case None
  from invoke_live[OF None assms] show ?thesis by auto
next
  case (Some m)
  from invoke_recorder[OF Some assms] show ?thesis by auto
qed

section \<open>Evaluating the scenarios\<close>

lemmas scenario_defs =
  scripted_backend_def no_error_def rollback_fails_def begin_fails_def create_fails_def
  TestModel_def empty_store_def live_world_def recorder_world_def set_Error_def on_def
  create_and_report_def create_and_ignore_def just_return_def returned_def final_def
  times_invoked_def set_ID_def

lemmas program_defs =
  invoke_def Called_def findExpectedCall_def Begin_def Commit_def Rollback_def Create_def
  Find_def First_def Save_def Delete_def WithContext_def GetDB_def Error_of_def Let_def

section \<open>Transaction\<close>

text \<open>
  C2.  If the error slot of the handle is non-nil once \<open>Begin\<close> has returned,
  \<open>Transaction\<close> returns that error in the very state \<open>Begin\<close> left: whatever the
  transactional function is (it does not occur in the result, so it was not
  run), and with \<open>Begin\<close> as the only wrapper method invoked, hence neither
  \<open>Commit\<close> nor \<open>Rollback\<close>.
\<close>

theorem Transaction_short_circuit:
  assumes "Begin bk w s = Inr (tx, s1)"
    and "Error_of (GetDB tx s1) s1 = Inr (Some e)"
  shows "Transaction bk w fc s = Inr (Some e, s1) \<and> invoked s1 = invoked s @ [(w, BeginC)]"
  using assms invoke_result[of bk w BeginC s tx s1]
  by (simp add: Transaction_def Begin_def)

theorem Transaction_short_circuit_witness:
  "returned (Transaction (scripted_backend begin_fails) 0 (\<lambda>tx s. Inl BackendPanic) live_world)
     = Inr (Some ''cannot open transaction'')
   \<and> map snd (invoked (final (Transaction (scripted_backend begin_fails) 0
                                (\<lambda>tx s. Inl BackendPanic) live_world) live_world))
     = [BeginC]"
proof -
  define s1 where "s1 = final (Begin (scripted_backend begin_fails) 0 live_world) live_world"
  have b: "Begin (scripted_backend begin_fails) 0 live_world = Inr (0, s1)"
    by (simp add: s1_def program_defs scenario_defs)
  have e: "Error_of (GetDB 0 s1) s1 = Inr (Some ''cannot open transaction'')"
    by (simp add: s1_def program_defs scenario_defs)
  have i: "invoked live_world = []"
    by (simp add: live_world_def)
  from Transaction_short_circuit[OF b e, of "\<lambda>tx s. Inl BackendPanic"] i
  show ?thesis by (simp add: returned_def final_def)
qed

text \<open>
  C1.  When \<open>Begin\<close> has returned with a nil error slot and the transactional
  function returns, \<open>Transaction\<close> itself invokes exactly one further wrapper
  method after the function: \<open>Rollback\<close> if the function returned a non-nil
  error, \<open>Commit\<close> if it returned nil.  So after the function the number of
  \<open>Rollback\<close> invocations grows by one and that of \<open>Commit\<close> by none in the
  first case, and the other way round in the second; before the function
  \<open>Transaction\<close> invokes \<open>Begin\<close> only.  The invocations the function makes
  itself are those between \<open>invoked s1\<close> and \<open>invoked s2\<close>; when it commits
  and rolls back nothing on its own, the whole execution has one \<open>Rollback\<close>
  and no \<open>Commit\<close>, or one \<open>Commit\<close> and no \<open>Rollback\<close>.  Only the
  error the function returns decides: a function that leaves an error in the
  slot and returns nil is committed.
\<close>

theorem Transaction_commit_xor_rollback:
  assumes "Begin bk w s = Inr (tx, s1)"
    and "Error_of (GetDB tx s1) s1 = Inr None"
    and "fc tx s1 = Inr (err, s2)"
    and "(if err = None then Commit bk tx s2 else Rollback bk tx s2) = Inr (r, s3)"
  shows "Transaction bk w fc s = Inr (err, s3) \<and>
         invoked s1 = invoked s @ [(w, BeginC)] \<and>
         invoked s3 = invoked s2 @ [(w, if err = None then CommitC else RollbackC)] \<and>
         times_invoked RollbackC (invoked s3) =
           times_invoked RollbackC (invoked s2) + (if err = None then 0 else 1) \<and>
         times_invoked CommitC (invoked s3) =
           times_invoked CommitC (invoked s2) + (if err = None then 1 else 0) \<and>
         times_invoked RollbackC (invoked s1) = times_invoked RollbackC (invoked s) \<and>
         times_invoked CommitC (invoked s1) = times_invoked CommitC (invoked s) \<and>
         (times_invoked RollbackC (invoked s2) = times_invoked RollbackC (invoked s1) \<and>
          times_invoked CommitC (invoked s2) = times_invoked CommitC (invoked s1) \<longrightarrow>
            times_invoked RollbackC (invoked s3) =
              times_invoked RollbackC (invoked s) + (if err = None then 0 else 1) \<and>
            times_invoked CommitC (invoked s3) =
              times_invoked CommitC (invoked s) + (if err = None then 1 else 0))"
proof -
  from assms(1) have b: "tx = w \<and> invoked s1 = invoked s @ [(w, BeginC)]"
    using invoke_result[of bk w BeginC s tx s1] by (simp add: Begin_def)
  from assms(4) have f: "invoked s3 = invoked s2 @ [(w, if err = None then CommitC else RollbackC)]"
    using invoke_result[of bk tx CommitC s2 r s3] invoke_result[of bk tx RollbackC s2 r s3] b
    by (simp add: Commit_def Rollback_def split: if_splits)
  from assms b have t: "Transaction bk w fc s = Inr (err, s3)"
    by (auto simp: Transaction_def split: if_splits)
  from b f t show ?thesis
    by (simp add: times_invoked_def)
qed

theorem Transaction_commit_xor_rollback_witness:
  "returned (Transaction (scripted_backend no_error) 0
               (create_and_report (scripted_backend no_error)) recorder_world)
     = Inr (Some ''transaction error'')
   \<and> map snd (invoked (final (Transaction (scripted_backend no_error) 0
                 (create_and_report (scripted_backend no_error)) recorder_world) recorder_world))
     = [BeginC, CreateC (VPtr 0), RollbackC]
   \<and> returned (Transaction (scripted_backend no_error) 0 (just_return None) live_world)
     = Inr None
   \<and> map snd (invoked (final (Transaction (scripted_backend no_error) 0
                 (just_return None) live_world) live_world))
     = [BeginC, CommitC]
   \<and> returned (Transaction (scripted_backend no_error) 0
               (create_and_ignore (scripted_backend no_error)) recorder_world)
     = Inr None
   \<and> map snd (invoked (final (Transaction (scripted_backend no_error) 0
                 (create_and_ignore (scripted_backend no_error)) recorder_world) recorder_world))
     = [BeginC, CreateC (VPtr 0), CommitC]
   \<and> Error_of (Some 0) (final (Transaction (scripted_backend no_error) 0
                 (create_and_ignore (scripted_backend no_error)) recorder_world) recorder_world)
     = Inr (Some ''transaction error'')"
proof -
  let ?bk = "scripted_backend no_error"
  define s1 where "s1 = final (Begin ?bk 0 recorder_world) recorder_world"
  define s2 where "s2 = final (create_and_report ?bk 0 s1) s1"
  define s3 where "s3 = final (Rollback ?bk 0 s2) s2"
  have b: "Begin ?bk 0 recorder_world = Inr (0, s1)"
    by (simp add: s1_def program_defs scenario_defs)
  have e: "Error_of (GetDB 0 s1) s1 = Inr None"
    by (simp add: s1_def program_defs scenario_defs)
  have f: "create_and_report ?bk 0 s1 = Inr (Some ''transaction error'', s2)"
    by (simp add: s2_def s1_def program_defs scenario_defs)
  have r: "(if Some ''transaction error'' = None then Commit ?bk 0 s2 else Rollback ?bk 0 s2)
             = Inr (0, s3)"
    by (simp add: s3_def s2_def s1_def program_defs scenario_defs)
  have i2: "map snd (invoked s2) = [BeginC, CreateC (VPtr 0)]"
    by (simp add: s2_def s1_def program_defs scenario_defs)
  define t1 where "t1 = final (Begin ?bk 0 live_world) live_world"
  define t3 where "t3 = final (Commit ?bk 0 t1) t1"
  have b': "Begin ?bk 0 live_world = Inr (0, t1)"
    by (simp add: t1_def program_defs scenario_defs)
  have e': "Error_of (GetDB 0 t1) t1 = Inr None"
    by (simp add: t1_def program_defs scenario_defs)
  have f': "just_return None 0 t1 = Inr (None, t1)"
    by (simp add: just_return_def)
  have r': "(if (None :: error) = None then Commit ?bk 0 t1 else Rollback ?bk 0 t1) = Inr (0, t3)"
    by (simp add: t3_def t1_def program_defs scenario_defs)
  have i1: "map snd (invoked t1) = [BeginC]"
    by (simp add: t1_def program_defs scenario_defs)
  define u2 where "u2 = final (create_and_ignore ?bk 0 s1) s1"
  define u3 where "u3 = final (Commit ?bk 0 u2) u2"
  have g: "create_and_ignore ?bk 0 s1 = Inr (None, u2)"
    by (simp add: u2_def s1_def program_defs scenario_defs)
  have c: "(if (None :: error) = None then Commit ?bk 0 u2 else Rollback ?bk 0 u2) = Inr (0, u3)"
    by (simp add: u3_def u2_def s1_def program_defs scenario_defs)
  have j2: "map snd (invoked u2) = [BeginC, CreateC (VPtr 0)]"
    by (simp add: u2_def s1_def program_defs scenario_defs)
  have e3: "Error_of (Some 0) u3 = Inr (Some ''transaction error'')"
    by (simp add: u3_def u2_def s1_def program_defs scenario_defs)
  from Transaction_commit_xor_rollback[where fc = "create_and_report ?bk", OF b e f r]
    Transaction_commit_xor_rollback[where fc = "just_return None", OF b' e' f' r']
    Transaction_commit_xor_rollback[where fc = "create_and_ignore ?bk", OF b e g c]
    i2 i1 j2 e3
  show ?thesis by (simp add: returned_def final_def)
qed

text \<open>
  C3.  When the transactional function returns a non-nil error \<open>e\<close> (after a
  successful \<open>Begin\<close>) and \<open>Rollback\<close> returns, \<open>Transaction\<close> has invoked
  \<open>Rollback\<close> on the handle and returns exactly \<open>e\<close>; nothing of what
  \<open>Rollback\<close> produced (its result \<open>r\<close>, the error slot in \<open>s3\<close>) enters the
  returned error.
\<close>

theorem Transaction_propagates_fn_error:
  assumes "Begin bk w s = Inr (tx, s1)"
    and "Error_of (GetDB tx s1) s1 = Inr None"
    and "fc tx s1 = Inr (Some e, s2)"
    and "Rollback bk tx s2 = Inr (r, s3)"
  shows "Transaction bk w fc s = Inr (Some e, s3) \<and> invoked s3 = invoked s2 @ [(tx, RollbackC)]"
  using assms invoke_result[of bk tx RollbackC s2 r s3]
  by (auto simp: Transaction_def Rollback_def)

theorem Transaction_propagates_fn_error_witness:
  "returned (Transaction (scripted_backend rollback_fails) 0 (just_return (Some ''boom'')) live_world)
     = Inr (Some ''boom'')
   \<and> Error_of (GetDB 0 (final (Transaction (scripted_backend rollback_fails) 0
                 (just_return (Some ''boom'')) live_world) live_world))
        (final (Transaction (scripted_backend rollback_fails) 0
                 (just_return (Some ''boom'')) live_world) live_world)
     = Inr (Some ''rollback failed'')
   \<and> map snd (invoked (final (Transaction (scripted_backend rollback_fails) 0
                 (just_return (Some ''boom'')) live_world) live_world))
     = [BeginC, RollbackC]"
proof -
  let ?bk = "scripted_backend rollback_fails"
  define s1 where "s1 = final (Begin ?bk 0 live_world) live_world"
  define s3 where "s3 = final (Rollback ?bk 0 s1) s1"
  have b: "Begin ?bk 0 live_world = Inr (0, s1)"
    by (simp add: s1_def program_defs scenario_defs)
  have e: "Error_of (GetDB 0 s1) s1 = Inr None"
    by (simp add: s1_def program_defs scenario_defs)
  have f: "just_return (Some ''boom'') 0 s1 = Inr (Some ''boom'', s1)"
    by (simp add: just_return_def)
  have r: "Rollback ?bk 0 s1 = Inr (0, s3)"
    by (simp add: s3_def s1_def program_defs scenario_defs)
  have i1: "map snd (invoked s1) = [BeginC]"
    by (simp add: s1_def program_defs scenario_defs)
  have e3: "Error_of (GetDB 0 s3) s3 = Inr (Some ''rollback failed'')"
    by (simp add: s3_def s1_def program_defs scenario_defs)
  from Transaction_propagates_fn_error[where fc = "just_return (Some ''boom'')", OF b e f r] i1 e3
  show ?thesis by (simp add: returned_def final_def)
qed

section \<open>What the repository returns\<close>

lemma new_var_result:
  "new_var v s = (nxt s, s\<lparr>mem := (mem s)\<lparr>cells := (cells (mem s))(nxt s := v)\<rparr>, nxt := Suc (nxt s)\<rparr>)"
  by (simp add: new_var_def)

lemma RepoDB_NewGormDatabase: "RepoDB (NewGormDatabase db) = db"
  by (simp add: NewGormDatabase_def)

lemma Repository_Find_result:
  assumes "Repository_Find bk gdb ctx conds s = Inr ((rs, err), s')"
  shows "rs = cells (mem s') (nxt s) \<and> Error_of (GetDB (RepoDB gdb) s') s' = Inr err \<and>
         invoked s' = invoked s @
           [(RepoDB gdb, WithContextC ctx), (RepoDB gdb, FindC (VPtr (nxt s)) conds)]"
  using assms
  by (auto simp: Repository_Find_def new_var_def WithContext_def Find_def
           split: sum.splits dest!: invoke_result)

lemma Repository_First_result:
  assumes "Repository_First bk zero gdb ctx conds s = Inr ((rs, err), s')"
  shows "rs = cells (mem s') (nxt s) \<and> Error_of (GetDB (RepoDB gdb) s') s' = Inr err \<and>
         invoked s' = invoked s @
           [(RepoDB gdb, WithContextC ctx), (RepoDB gdb, FirstC (VPtr (nxt s)) conds)]"
  using assms
  by (auto simp: Repository_First_def new_var_def WithContext_def First_def
           split: sum.splits dest!: invoke_result)

lemma Find_forwards_unchanged:
  assumes "Mock (wrappers s w) = None" "Find bk w out wher s = Inr (r, s')"
  shows "forwarded s' = forwarded s @ [(DB (wrappers s w), MFind, caller_args (FindC out wher))]"
  using invoke_live[OF assms(1), of bk "FindC out wher" r s'] assms(2)
  by (auto simp: Find_def)

lemma First_forwards_slice:
  assumes "Mock (wrappers s w) = None" "First bk w dest conds s = Inr (r, s')"
  shows "forwarded s' = forwarded s @ [(DB (wrappers s w), MFirst, [dest, VSlice conds])]"
  using invoke_live[OF assms(1), of bk "FirstC dest conds" r s'] assms(2)
  by (auto simp: First_def)

text \<open>
  C4.  In live mode \<open>Find\<close> hands the backend the caller's arguments as they
  are (\<open>Find_forwards_unchanged\<close>), and the repository's \<open>Find\<close> and \<open>First\<close>
  return exactly the error slot (\<open>Repository_Find_result\<close>,
  \<open>Repository_First_result\<close>).  \<open>First\<close> does not: called as
  \<^verbatim>\<open>First(&result, "Name = ?", "Test Name")\<close> on a live wrapper it hands the backend
  two arguments, the destination and one slice holding both conditions, where
  the caller wrote three.
\<close>

theorem First_live_changes_argument_shape:
  "map snd (forwarded (final (First (scripted_backend no_error) 0 (VPtr 0)
                                 [VStr ''Name = ?'', VStr ''Test Name''] live_world) live_world))
     = [(MFirst, [VPtr 0, VSlice [VStr ''Name = ?'', VStr ''Test Name'']])]
   \<and> caller_args (FirstC (VPtr 0) [VStr ''Name = ?'', VStr ''Test Name''])
     = [VPtr 0, VStr ''Name = ?'', VStr ''Test Name'']
   \<and> map snd (forwarded (final (Find (scripted_backend no_error) 0 (VPtr 0)
                                 [VStr ''Name = ?'', VStr ''Test Name''] live_world) live_world))
     = [(MFind, [VPtr 0, VStr ''Name = ?'', VStr ''Test Name''])]"
  by (simp add: program_defs scenario_defs)

text \<open>
  C5.  \<open>Repository_Create\<close> returns \<open>err\<close> in the state \<open>s'\<close> exactly when
  \<open>WithContext\<close>, invoked with the context on the repository's wrapper in the
  state where a fresh cell (\<open>nxt s\<close>) holds the copy of \<open>obj\<close>, returns; and
  \<open>Create\<close>, invoked next with the pointer to that cell, returns leaving \<open>s'\<close>;
  and \<open>err\<close> is what the error slot of the wrapper's handle holds in \<open>s'\<close>.
  So the state is the one \<open>Create\<close> left and the error is read from it as
  it is.  Without a recorder this is, in terms of the backend alone: the
  backend's \<open>MWithContext\<close> and then its \<open>MCreate\<close> run, the latter on the
  handle the former returned and with that pointer as only argument, and the
  error returned is the \<open>Error\<close> field of the handle \<open>MCreate\<close> returned, in the
  memory \<open>MCreate\<close> left.
\<close>

theorem Repository_Create_returns_error_slot:
  "(Repository_Create bk gdb ctx obj s = Inr (err, s')) =
     (\<exists>s1. WithContext bk (RepoDB gdb) ctx
               (s\<lparr>mem := (mem s)\<lparr>cells := (cells (mem s))(nxt s := obj)\<rparr>, nxt := Suc (nxt s)\<rparr>)
             = Inr (RepoDB gdb, s1) \<and>
           Create bk (RepoDB gdb) (VPtr (nxt s)) s1 = Inr (RepoDB gdb, s') \<and>
           Error_of (GetDB (RepoDB gdb) s') s' = Inr err)
   \<and> (Mock (wrappers s (RepoDB gdb)) = None \<longrightarrow>
        returned (Repository_Create bk gdb ctx obj s) =
          (case bk MWithContext (DB (wrappers s (RepoDB gdb))) [VCtx ctx]
                  ((mem s)\<lparr>cells := (cells (mem s))(nxt s := obj)\<rparr>) of
             Inl p \<Rightarrow> Inl p
           | Inr (d1, st1) \<Rightarrow>
               (case bk MCreate d1 [VPtr (nxt s)] st1 of
                  Inl p \<Rightarrow> Inl p
                | Inr (d2, st2) \<Rightarrow>
                    (case d2 of
                       None \<Rightarrow> Inl NilPointer
                     | Some a \<Rightarrow> Inr (Error (dbs st2 a))))))"
proof (intro conjI impI)
  let ?w = "RepoDB gdb"
  let ?s0 = "s\<lparr>mem := (mem s)\<lparr>cells := (cells (mem s))(nxt s := obj)\<rparr>, nxt := Suc (nxt s)\<rparr>"
  show "(Repository_Create bk gdb ctx obj s = Inr (err, s')) =
     (\<exists>s1. WithContext bk ?w ctx ?s0 = Inr (?w, s1) \<and>
           Create bk ?w (VPtr (nxt s)) s1 = Inr (?w, s') \<and>
           Error_of (GetDB ?w s') s' = Inr err)"
  proof
    assume r: "Repository_Create bk gdb ctx obj s = Inr (err, s')"
    then obtain wc s1 cr where
      a: "WithContext bk ?w ctx ?s0 = Inr (wc, s1)"
      and b: "Create bk wc (VPtr (nxt s)) s1 = Inr (cr, s')"
      and c: "Error_of (GetDB cr s') s' = Inr err"
      by (auto simp: Repository_Create_def new_var_def split: sum.splits)
    from a have wc: "wc = ?w"
      using invoke_result[of bk ?w "WithContextC ctx" ?s0 wc s1] by (simp add: WithContext_def)
    from b wc have cr: "cr = ?w"
      using invoke_result[of bk ?w "CreateC (VPtr (nxt s))" s1 cr s'] by (simp add: Create_def)
    from a b c wc cr show "\<exists>s1. WithContext bk ?w ctx ?s0 = Inr (?w, s1) \<and>
           Create bk ?w (VPtr (nxt s)) s1 = Inr (?w, s') \<and>
           Error_of (GetDB ?w s') s' = Inr err"
      by auto
  next
    assume "\<exists>s1. WithContext bk ?w ctx ?s0 = Inr (?w, s1) \<and>
           Create bk ?w (VPtr (nxt s)) s1 = Inr (?w, s') \<and>
           Error_of (GetDB ?w s') s' = Inr err"
    then show "Repository_Create bk gdb ctx obj s = Inr (err, s')"
      by (auto simp: Repository_Create_def new_var_def)
  qed
next
  assume live: "Mock (wrappers s (RepoDB gdb)) = None"
  then show "returned (Repository_Create bk gdb ctx obj s) =
          (case bk MWithContext (DB (wrappers s (RepoDB gdb))) [VCtx ctx]
                  ((mem s)\<lparr>cells := (cells (mem s))(nxt s := obj)\<rparr>) of
             Inl p \<Rightarrow> Inl p
           | Inr (d1, st1) \<Rightarrow>
               (case bk MCreate d1 [VPtr (nxt s)] st1 of
                  Inl p \<Rightarrow> Inl p
                | Inr (d2, st2) \<Rightarrow>
                    (case d2 of
                       None \<Rightarrow> Inl NilPointer
                     | Some a \<Rightarrow> Inr (Error (dbs st2 a)))))"
    by (simp add: Repository_Create_def new_var_def WithContext_def Create_def invoke_def Let_def
          GetDB_def Error_of_def returned_def split: sum.splits option.splits)
qed

theorem Repository_Create_returns_error_slot_witness:
  "returned (Repository_Create (scripted_backend create_fails) (NewGormDatabase 0) ''ctx''
               (TestModel 0 ''x'') live_world) = Inr (Some ''create error'')
   \<and> cells (mem (final (Repository_Create (scripted_backend create_fails) (NewGormDatabase 0)
                 ''ctx'' (TestModel 0 ''x'') live_world) live_world)) 1
     = TestModel 1 ''x''
   \<and> map snd (invoked (final (Repository_Create (scripted_backend create_fails) (NewGormDatabase 0)
                 ''ctx'' (TestModel 0 ''x'') live_world) live_world))
     = [WithContextC ''ctx'', CreateC (VPtr 1)]
   \<and> Error_of (Some 0) (final (Repository_Create (scripted_backend create_fails)
                 (NewGormDatabase 0) ''ctx'' (TestModel 0 ''x'') live_world) live_world)
     = Inr (Some ''create error'')"
proof -
  let ?bk = "scripted_backend create_fails"
  let ?gdb = "NewGormDatabase 0"
  let ?s0 = "live_world\<lparr>mem := (mem live_world)\<lparr>cells := (cells (mem live_world))
                 (nxt live_world := TestModel 0 ''x'')\<rparr>, nxt := Suc (nxt live_world)\<rparr>"
  define s1 where "s1 = final (WithContext ?bk 0 ''ctx'' ?s0) ?s0"
  define s2 where "s2 = final (Create ?bk 0 (VPtr 1) s1) s1"
  have a: "WithContext ?bk (RepoDB ?gdb) ''ctx'' ?s0 = Inr (RepoDB ?gdb, s1)"
    by (simp add: s1_def RepoDB_NewGormDatabase program_defs scenario_defs)
  have b: "Create ?bk (RepoDB ?gdb) (VPtr (nxt live_world)) s1 = Inr (RepoDB ?gdb, s2)"
    by (simp add: s2_def s1_def RepoDB_NewGormDatabase program_defs scenario_defs)
  have c: "Error_of (GetDB (RepoDB ?gdb) s2) s2 = Inr (Some ''create error'')"
    by (simp add: s2_def s1_def RepoDB_NewGormDatabase program_defs scenario_defs)
  have d: "cells (mem s2) 1 = TestModel 1 ''x''"
    by (simp add: s2_def s1_def program_defs scenario_defs)
  have i: "map snd (invoked s2) = [WithContextC ''ctx'', CreateC (VPtr 1)]"
    by (simp add: s2_def s1_def program_defs scenario_defs)
  have e: "Error_of (Some 0) s2 = Inr (Some ''create error'')"
    by (simp add: s2_def s1_def program_defs scenario_defs)
  from a b c have "\<exists>s1. WithContext ?bk (RepoDB ?gdb) ''ctx'' ?s0 = Inr (RepoDB ?gdb, s1) \<and>
           Create ?bk (RepoDB ?gdb) (VPtr (nxt live_world)) s1 = Inr (RepoDB ?gdb, s2) \<and>
           Error_of (GetDB (RepoDB ?gdb) s2) s2 = Inr (Some ''create error'')"
    by blast
  with Repository_Create_returns_error_slot[of ?bk ?gdb "''ctx''" "TestModel 0 ''x''" live_world
         "Some ''create error''" s2]
  have r: "Repository_Create ?bk ?gdb ''ctx'' (TestModel 0 ''x'') live_world
             = Inr (Some ''create error'', s2)"
    by blast
  from d i e show ?thesis
    by (simp add: r returned_def final_def)
qed

section \<open>The two modes of a wrapper call\<close>

text \<open>
  C6, as the code has it.  Every dispatching method is \<open>invoke\<close> at its own
  constructor (\<open>Create_def\<close> \<dots> \<open>Commit_def\<close>), so the statement is for all
  nine.  When a call returns: with a recorder attached, the recorder's list of
  calls has grown by this call with the arguments the method passes to it,
  nothing was forwarded to the backend (the backend parameter does not even
  influence the outcome) and the call returns its receiver, whatever the
  recorder was programmed to return; without a recorder the call was forwarded
  to the backend, once, and no recorder changed.
\<close>

theorem invoke_records_or_forwards:
  assumes "invoke bk w c s = Inr (r, s')"
  shows "(case Mock (wrappers s w) of
            Some m \<Rightarrow>
              Calls (mocks s' m) = Calls (mocks s m) @ [(method_of c, recorded_args c)] \<and>
              forwarded s' = forwarded s \<and>
              mem s' = mem (final (Called m (method_of c) (recorded_args c)
                                     (s\<lparr>invoked := invoked s @ [(w, c)]\<rparr>)) s) \<and>
              invoke bk' w c s = Inr (r, s') \<and>
              r = w
          | None \<Rightarrow>
              forwarded s' = forwarded s @ [(DB (wrappers s w), method_of c, forwarded_args c)] \<and>
              mocks s' = mocks s \<and>
              r = w)"
proof (cases "Mock (wrappers s w)")
  case None
  from invoke_live[OF None assms] show ?thesis
    by (auto simp: None)
next
  case (Some m)
  have same: "invoke bk' w c s = invoke bk w c s"
    by (simp add: invoke_def Let_def Some)
  have m: "mem s' = mem (final (Called m (method_of c) (recorded_args c)
                                  (s\<lparr>invoked := invoked s @ [(w, c)]\<rparr>)) s)"
    using assms by (auto simp: invoke_def Let_def Some final_def split: sum.splits)
  from invoke_recorder[OF Some assms] same assms m show ?thesis
    by (simp add: Some)
qed

theorem invoke_records_or_forwards_witness:
  "returned (Begin (scripted_backend no_error) 0 recorder_world) = Inr 0
   \<and> Calls (mocks (final (Begin (scripted_backend no_error) 0 recorder_world) recorder_world) 0)
     = [(MBegin, [])]
   \<and> forwarded (final (Begin (scripted_backend no_error) 0 recorder_world) recorder_world) = []
   \<and> returned (Find (scripted_backend no_error) 0 (VPtr 0) [VInt 7] live_world) = Inr 0
   \<and> forwarded (final (Find (scripted_backend no_error) 0 (VPtr 0) [VInt 7] live_world) live_world)
     = [(Some 0, MFind, [VPtr 0, VInt 7])]
   \<and> Calls (mocks (final (Find (scripted_backend no_error) 0 (VPtr 0) [VInt 7] live_world)
                      live_world) 0) = []"
proof -
  let ?bk = "scripted_backend no_error"
  define s1 where "s1 = final (invoke ?bk 0 BeginC recorder_world) recorder_world"
  define t1 where "t1 = final (invoke ?bk 0 (FindC (VPtr 0) [VInt 7]) live_world) live_world"
  have b: "invoke ?bk 0 BeginC recorder_world = Inr (0, s1)"
    by (simp add: s1_def program_defs scenario_defs)
  have f: "invoke ?bk 0 (FindC (VPtr 0) [VInt 7]) live_world = Inr (0, t1)"
    by (simp add: t1_def program_defs scenario_defs)
  have m: "Mock (wrappers recorder_world 0) = Some 0 \<and> Mock (wrappers live_world 0) = None
           \<and> Calls (mocks recorder_world 0) = [] \<and> forwarded recorder_world = []
           \<and> forwarded live_world = [] \<and> DB (wrappers live_world 0) = Some 0
           \<and> Calls (mocks live_world 0) = []"
    by (simp add: recorder_world_def live_world_def)
  from invoke_records_or_forwards[OF b] invoke_records_or_forwards[OF f] m
  show ?thesis
    by (simp add: Begin_def Find_def b f returned_def final_def)
qed

text \<open>
  The claim as stated fails where it says the call returns a pre-programmed
  result: the recorder of \<open>recorder_world\<close> is programmed to return the wrapper
  at address 1 for \<open>Begin\<close>, and \<open>Begin\<close> on the wrapper at address 0 returns the
  wrapper at address 0.
\<close>

theorem Begin_ignores_programmed_result:
  "returned (Called 0 MBegin [] recorder_world) = Inr [VWrapper 1]
   \<and> returned (Begin (scripted_backend no_error) 0 recorder_world) = Inr 0
   \<and> [VWrapper 0] \<noteq> [VWrapper 1]"
  by (simp add: program_defs scenario_defs)

section \<open>Live mode: the stored handle\<close>

text \<open>
  C7.  Without a recorder, a call that returns has replaced the \<open>DB\<close> field of
  the wrapper it was invoked on by the handle the backend returned; the
  wrapper's \<open>Mock\<close> field, every other wrapper and every recorder are as before,
  and the memory is the one the backend left.  \<open>GetDB\<close> only reads the state, so
  from then on it yields that handle, and through it the error the backend left
  there, for as long as the state is not changed by a further call.
\<close>

theorem live_call_replaces_handle:
  assumes "Mock (wrappers s w) = None"
    and "invoke bk w c s = Inr (r, s')"
  shows "\<exists>d st. bk (method_of c) (DB (wrappers s w)) (forwarded_args c) (mem s) = Inr (d, st) \<and>
           wrappers s' = (wrappers s)(w := (wrappers s w)\<lparr>DB := d\<rparr>) \<and>
           Mock (wrappers s' w) = Mock (wrappers s w) \<and>
           mocks s' = mocks s \<and> nxt s' = nxt s \<and> mem s' = st \<and>
           GetDB w s' = d \<and>
           Error_of (GetDB w s') s' =
             (case d of None \<Rightarrow> Inl NilPointer | Some a \<Rightarrow> Inr (Error (dbs st a)))"
  using invoke_live[OF assms]
  by (auto simp: GetDB_def Error_of_def split: option.splits)

theorem live_call_replaces_handle_witness:
  "GetDB 0 (final (Create (scripted_backend create_fails) 0 (VPtr 0) live_world) live_world) = Some 0
   \<and> Error_of (Some 0) (final (Create (scripted_backend create_fails) 0 (VPtr 0) live_world) live_world)
     = Inr (Some ''create error'')
   \<and> Mock (wrappers (final (Create (scripted_backend create_fails) 0 (VPtr 0) live_world)
              live_world) 0) = None"
proof -
  let ?bk = "scripted_backend create_fails"
  define s1 where "s1 = final (invoke ?bk 0 (CreateC (VPtr 0)) live_world) live_world"
  have c: "invoke ?bk 0 (CreateC (VPtr 0)) live_world = Inr (0, s1)"
    by (simp add: s1_def program_defs scenario_defs)
  have m: "Mock (wrappers live_world 0) = None"
    by (simp add: live_world_def)
  have k: "?bk (method_of (CreateC (VPtr 0))) (DB (wrappers live_world 0))
             (forwarded_args (CreateC (VPtr 0))) (mem live_world)
           = Inr (Some 0, mem s1)"
    by (simp add: s1_def program_defs scenario_defs)
  have e: "Error (dbs (mem s1) 0) = Some ''create error''"
    by (simp add: s1_def program_defs scenario_defs)
  from live_call_replaces_handle[OF m c] k e m
  show ?thesis
    by (auto simp: Create_def c final_def)
qed

section \<open>The receiver is what every call returns\<close>

text \<open>
  C9.  Each of the nine operations, with or without a recorder, returns the
  address of the wrapper it was invoked on when it returns, and no other
  wrapper object is touched: the handle \<open>Begin\<close> returns is the original
  wrapper, updated in place.
\<close>

theorem wrapper_operations_return_receiver:
  assumes "f \<in> {Create bk w value, Find bk w out wher, Delete bk w value conds,
                 First bk w dest conds, Save bk w value, WithContext bk w ctx,
                 Begin bk w, Rollback bk w, Commit bk w}"
    and "f s = Inr (r, s')"
  shows "r = w \<and> (\<forall>w'. w' \<noteq> w \<longrightarrow> wrappers s' w' = wrappers s w')"
proof -
  from assms obtain c where c: "invoke bk w c s = Inr (r, s')"
    unfolding Create_def Find_def Delete_def First_def Save_def WithContext_def
      Begin_def Rollback_def Commit_def
    by auto
  show ?thesis
  proof (cases "Mock (wrappers s w)")
    case None
    from invoke_live[OF None c] show ?thesis by auto
  next
    case (Some m)
    from invoke_recorder[OF Some c] show ?thesis by auto
  qed
qed

theorem wrapper_operations_return_receiver_witness:
  "returned (Begin (scripted_backend no_error) 0 live_world) = Inr 0
   \<and> returned (Begin (scripted_backend no_error) 0 recorder_world) = Inr 0
   \<and> wrappers (final (Begin (scripted_backend no_error) 0 live_world) live_world) 1
     = wrappers live_world 1"
proof -
  let ?bk = "scripted_backend no_error"
  define s1 where "s1 = final (Begin ?bk 0 live_world) live_world"
  define t1 where "t1 = final (Begin ?bk 0 recorder_world) recorder_world"
  have a: "Begin ?bk 0 live_world = Inr (0, s1)"
    by (simp add: s1_def program_defs scenario_defs)
  have b: "Begin ?bk 0 recorder_world = Inr (0, t1)"
    by (simp add: t1_def program_defs scenario_defs)
  have "Begin ?bk 0 \<in> {Create ?bk 0 VNil, Find ?bk 0 VNil [], Delete ?bk 0 VNil [],
                 First ?bk 0 VNil [], Save ?bk 0 VNil, WithContext ?bk 0 [],
                 Begin ?bk 0, Rollback ?bk 0, Commit ?bk 0}"
    by simp
  from wrapper_operations_return_receiver[OF this a] wrapper_operations_return_receiver[OF this b]
  show ?thesis
    by (simp add: a b returned_def final_def)
qed

section \<open>Frames: what a call leaves alone\<close>










section \<open>Find on a query without rows\<close>

text \<open>
  C8.  \<open>Repository_Find\<close> returns the pair \<open>(rs, err)\<close> in the state \<open>s'\<close>
  exactly when \<open>WithContext\<close>, invoked with the context in the state where a
  fresh cell (\<open>nxt s\<close>) holds the empty sequence, returns; and \<open>Find\<close>,
  invoked next with the pointer to that cell and the conditions, returns
  leaving \<open>s'\<close>; and \<open>rs\<close> is what the cell holds and \<open>err\<close> what the error
  slot holds in \<open>s'\<close>.  Over the backend with a backing store, on a live
  wrapper with a handle, the result is the sequence of the rows the conditions
  select, with a nil error; so when they select no row (as in an empty store)
  it is the empty sequence with a nil error.
\<close>

theorem Repository_Find_no_rows:
  "(Repository_Find bk gdb ctx conds s = Inr ((rs, err), s')) =
     (\<exists>s1. WithContext bk (RepoDB gdb) ctx
               (s\<lparr>mem := (mem s)\<lparr>cells := (cells (mem s))(nxt s := VSlice [])\<rparr>,
                  nxt := Suc (nxt s)\<rparr>)
             = Inr (RepoDB gdb, s1) \<and>
           Find bk (RepoDB gdb) (VPtr (nxt s)) conds s1 = Inr (RepoDB gdb, s') \<and>
           rs = cells (mem s') (nxt s) \<and>
           Error_of (GetDB (RepoDB gdb) s') s' = Inr err)
   \<and> (Mock (wrappers s (RepoDB gdb)) = None \<and> DB (wrappers s (RepoDB gdb)) = Some a \<longrightarrow>
        returned (Repository_Find (spec_backend matches key) gdb ctx conds s) =
          Inr (VSlice (filter (matches conds) (table (mem s))), None))
   \<and> (Mock (wrappers s (RepoDB gdb)) = None \<and> DB (wrappers s (RepoDB gdb)) = Some a \<and>
        filter (matches conds) (table (mem s)) = [] \<longrightarrow>
        returned (Repository_Find (spec_backend matches key) gdb ctx conds s) =
          Inr (VSlice [], None))"
proof (intro conjI impI)
  let ?w = "RepoDB gdb"
  let ?s0 = "s\<lparr>mem := (mem s)\<lparr>cells := (cells (mem s))(nxt s := VSlice [])\<rparr>,
               nxt := Suc (nxt s)\<rparr>"
  show "(Repository_Find bk gdb ctx conds s = Inr ((rs, err), s')) =
     (\<exists>s1. WithContext bk ?w ctx ?s0 = Inr (?w, s1) \<and>
           Find bk ?w (VPtr (nxt s)) conds s1 = Inr (?w, s') \<and>
           rs = cells (mem s') (nxt s) \<and>
           Error_of (GetDB ?w s') s' = Inr err)"
  proof
    assume "Repository_Find bk gdb ctx conds s = Inr ((rs, err), s')"
    then obtain wc s1 f where
      a: "WithContext bk ?w ctx ?s0 = Inr (wc, s1)"
      and b: "Find bk wc (VPtr (nxt s)) conds s1 = Inr (f, s')"
      and c: "Error_of (GetDB f s') s' = Inr err"
      and d: "rs = cells (mem s') (nxt s)"
      by (auto simp: Repository_Find_def new_var_def split: sum.splits)
    from a have wc: "wc = ?w"
      using invoke_result[of bk ?w "WithContextC ctx" ?s0 wc s1] by (simp add: WithContext_def)
    from b wc have f: "f = ?w"
      using invoke_result[of bk ?w "FindC (VPtr (nxt s)) conds" s1 f s'] by (simp add: Find_def)
    from a b c d wc f show "\<exists>s1. WithContext bk ?w ctx ?s0 = Inr (?w, s1) \<and>
           Find bk ?w (VPtr (nxt s)) conds s1 = Inr (?w, s') \<and>
           rs = cells (mem s') (nxt s) \<and>
           Error_of (GetDB ?w s') s' = Inr err"
      by auto
  next
    assume "\<exists>s1. WithContext bk ?w ctx ?s0 = Inr (?w, s1) \<and>
           Find bk ?w (VPtr (nxt s)) conds s1 = Inr (?w, s') \<and>
           rs = cells (mem s') (nxt s) \<and>
           Error_of (GetDB ?w s') s' = Inr err"
    then show "Repository_Find bk gdb ctx conds s = Inr ((rs, err), s')"
      by (auto simp: Repository_Find_def new_var_def)
  qed
next
  assume live: "Mock (wrappers s (RepoDB gdb)) = None \<and> DB (wrappers s (RepoDB gdb)) = Some a"
  then show all: "returned (Repository_Find (spec_backend matches key) gdb ctx conds s) =
          Inr (VSlice (filter (matches conds) (table (mem s))), None)"
    by (simp add: Repository_Find_def new_var_def WithContext_def Find_def invoke_def Let_def
          GetDB_def Error_of_def returned_def spec_backend_def outcome_in_slot_def)
next
  assume "Mock (wrappers s (RepoDB gdb)) = None \<and> DB (wrappers s (RepoDB gdb)) = Some a \<and>
        filter (matches conds) (table (mem s)) = []"
  then show "returned (Repository_Find (spec_backend matches key) gdb ctx conds s) =
          Inr (VSlice [], None)"
    by (simp add: Repository_Find_def new_var_def WithContext_def Find_def invoke_def Let_def
          GetDB_def Error_of_def returned_def spec_backend_def outcome_in_slot_def)
qed

theorem Repository_Find_no_rows_witness:
  "returned (Repository_Find (spec_backend by_name first_field) (NewGormDatabase 0) ''ctx'' []
               live_world) = Inr (VSlice [], None)
   \<and> returned (Repository_Find (spec_backend by_name first_field) (NewGormDatabase 0) ''ctx''
               [VStr ''nobody'']
               (live_world\<lparr>mem := (mem live_world)\<lparr>table := [TestModel 1 ''Test Name'']\<rparr>\<rparr>))
       = Inr (VSlice [], None)
   \<and> returned (Repository_Find (spec_backend by_name first_field) (NewGormDatabase 0) ''ctx''
               [VStr ''Test Name'']
               (live_world\<lparr>mem := (mem live_world)\<lparr>table := [TestModel 1 ''Test Name'']\<rparr>\<rparr>))
       = Inr (VSlice [TestModel 1 ''Test Name''], None)"
proof -
  let ?gdb = "NewGormDatabase 0"
  let ?t = "live_world\<lparr>mem := (mem live_world)\<lparr>table := [TestModel 1 ''Test Name'']\<rparr>\<rparr>"
  have l: "Mock (wrappers live_world (RepoDB ?gdb)) = None \<and>
           DB (wrappers live_world (RepoDB ?gdb)) = Some 0 \<and>
           filter (by_name []) (table (mem live_world)) = []"
    by (simp add: live_world_def empty_store_def)
  have t: "Mock (wrappers ?t (RepoDB ?gdb)) = None \<and>
           DB (wrappers ?t (RepoDB ?gdb)) = Some 0 \<and>
           filter (by_name [VStr ''nobody'']) (table (mem ?t)) = []"
    by (simp add: live_world_def by_name_def TestModel_def)
  have u: "Mock (wrappers ?t (RepoDB ?gdb)) = None \<and>
           DB (wrappers ?t (RepoDB ?gdb)) = Some 0"
    by (simp add: live_world_def)
  have f: "filter (by_name [VStr ''Test Name'']) (table (mem ?t)) = [TestModel 1 ''Test Name'']"
    by (simp add: by_name_def TestModel_def)
  from Repository_Find_no_rows[of _ ?gdb "''ctx''" "[]" live_world _ _ _ 0 by_name first_field] l
  have 1: "returned (Repository_Find (spec_backend by_name first_field) ?gdb ''ctx'' []
               live_world) = Inr (VSlice [], None)"
    by blast
  from Repository_Find_no_rows[of _ ?gdb "''ctx''" "[VStr ''nobody'']" ?t _ _ _ 0
         by_name first_field] t
  have 2: "returned (Repository_Find (spec_backend by_name first_field) ?gdb ''ctx''
               [VStr ''nobody''] ?t) = Inr (VSlice [], None)"
    by blast
  from Repository_Find_no_rows[of _ ?gdb "''ctx''" "[VStr ''Test Name'']" ?t _ _ _ 0
         by_name first_field] u f
  have 3: "returned (Repository_Find (spec_backend by_name first_field) ?gdb ''ctx''
               [VStr ''Test Name''] ?t) = Inr (VSlice [TestModel 1 ''Test Name''], None)"
    by (simp del: filter.simps)
  from 1 2 3 show ?thesis by simp
qed

text \<open>The backing store is one: what \<open>Repository_Create\<close> stored,
  \<open>Repository_Find\<close> finds.\<close>

lemma create_then_find:
  "returned (Repository_Find (spec_backend by_name first_field) (NewGormDatabase 0) ''ctx'' []
      (final (Repository_Create (spec_backend by_name first_field) (NewGormDatabase 0) ''ctx''
                (TestModel 1 ''Test Name'') live_world) live_world))
     = Inr (VSlice [TestModel 1 ''Test Name''], None)"
  by (simp add: Repository_Find_def Repository_Create_def new_var_def NewGormDatabase_def
        spec_backend_def outcome_in_slot_def by_name_def program_defs scenario_defs)

end
